theory Spec2Isabelle
  imports Complex_Main
begin

section \<open>Python values\<close>

text \<open>
  The parameter classes of \<^verbatim>\<open>federatedrec/param/matrix_factorization_param.py\<close> hold
  dynamically typed attributes: the same field is a string or a dict before \<^verbatim>\<open>check()\<close>
  and a \<^verbatim>\<open>SimpleNamespace\<close> after it. Every attribute is therefore a \<open>pyval\<close>, and
  each \<^verbatim>\<open>isinstance\<close> / \<^verbatim>\<open>type(...).__name__\<close> test of the source is a case
  distinction on its constructor.

  A float is the real number it denotes, or one of the three special values. A dict and
  the attribute table of a \<^verbatim>\<open>SimpleNamespace\<close> are association lists in insertion
  order; the keys of a dict are strings.
\<close>

datatype pyfloat = Fin real | PosInf | NegInf | NaN

datatype pyval =
    PNone
  | PBool bool
  | PInt int
  | PFloat pyfloat
  | PStr string
  | PList "pyval list"
  | PTuple "pyval list"
  | PDict "(string \<times> pyval) list"
  | PNamespace "(string \<times> pyval) list"

datatype error = ValueError string | TypeError string | AttributeError string

text \<open>\<^verbatim>\<open>f < n\<close> and \<^verbatim>\<open>f == n\<close> for a float and an int; Python compares them exactly.\<close>

fun float_lt_int :: "pyfloat \<Rightarrow> int \<Rightarrow> bool" where
  "float_lt_int (Fin r) n = (r < of_int n)"
| "float_lt_int NegInf n = True"
| "float_lt_int PosInf n = False"
| "float_lt_int NaN n = False"

fun float_eq_int :: "pyfloat \<Rightarrow> int \<Rightarrow> bool" where
  "float_eq_int (Fin r) n = (r = of_int n)"
| "float_eq_int PosInf n = False"
| "float_eq_int NegInf n = False"
| "float_eq_int NaN n = False"

text \<open>The truth value of an object, as \<^verbatim>\<open>not param\<close> tests it.\<close>

fun py_truthy :: "pyval \<Rightarrow> bool" where
  "py_truthy PNone = False"
| "py_truthy (PBool b) = b"
| "py_truthy (PInt n) = (n \<noteq> 0)"
| "py_truthy (PFloat (Fin r)) = (r \<noteq> 0)"
| "py_truthy (PFloat f) = True"
| "py_truthy (PStr s) = (s \<noteq> [])"
| "py_truthy (PList xs) = (xs \<noteq> [])"
| "py_truthy (PTuple xs) = (xs \<noteq> [])"
| "py_truthy (PDict d) = (d \<noteq> [])"
| "py_truthy (PNamespace a) = True"

text \<open>\<^verbatim>\<open>v == n\<close> for an int \<open>n\<close>: a bool is the int 0 or 1, a non-number is never equal.\<close>

fun py_eq_int :: "pyval \<Rightarrow> int \<Rightarrow> bool" where
  "py_eq_int (PInt m) n = (m = n)"
| "py_eq_int (PBool b) n = ((if b then 1 else 0) = n)"
| "py_eq_int (PFloat f) n = float_eq_int f n"
| "py_eq_int v n = False"

text \<open>
  \<^verbatim>\<open>v < n\<close> for an int \<open>n\<close>; \<open>None\<close> where Python raises \<^verbatim>\<open>TypeError\<close> (a
  non-number on the left).
\<close>

fun py_lt_int :: "pyval \<Rightarrow> int \<Rightarrow> bool option" where
  "py_lt_int (PInt m) n = Some (m < n)"
| "py_lt_int (PBool b) n = Some ((if b then 1 else 0) < n)"
| "py_lt_int (PFloat f) n = Some (float_lt_int f n)"
| "py_lt_int v n = None"

text \<open>\<^verbatim>\<open>type(v).__name__ == "int"\<close>: exactly an int, a bool has the type name \<^verbatim>\<open>bool\<close>.\<close>

fun type_is_int :: "pyval \<Rightarrow> bool" where
  "type_is_int (PInt n) = True"
| "type_is_int v = False"

text \<open>\<^verbatim>\<open>isinstance(v, (int, float))\<close>: \<^verbatim>\<open>bool\<close> is a subclass of \<^verbatim>\<open>int\<close>.\<close>

fun isinstance_int_float :: "pyval \<Rightarrow> bool" where
  "isinstance_int_float (PInt n) = True"
| "isinstance_int_float (PBool b) = True"
| "isinstance_int_float (PFloat f) = True"
| "isinstance_int_float v = False"

fun isinstance_int :: "pyval \<Rightarrow> bool" where
  "isinstance_int (PInt n) = True"
| "isinstance_int (PBool b) = True"
| "isinstance_int v = False"

fun isinstance_str :: "pyval \<Rightarrow> bool" where
  "isinstance_str (PStr s) = True"
| "isinstance_str v = False"

fun isinstance_dict :: "pyval \<Rightarrow> bool" where
  "isinstance_dict (PDict d) = True"
| "isinstance_dict v = False"

fun isinstance_list :: "pyval \<Rightarrow> bool" where
  "isinstance_list (PList xs) = True"
| "isinstance_list v = False"

text \<open>\<^verbatim>\<open>d.get(k, default)\<close>.\<close>

definition dict_get :: "(string \<times> pyval) list \<Rightarrow> string \<Rightarrow> pyval \<Rightarrow> pyval" where
  "dict_get d k dflt = (case map_of d k of None \<Rightarrow> dflt | Some v \<Rightarrow> v)"

text \<open>Attribute access \<^verbatim>\<open>obj.name\<close> on a \<^verbatim>\<open>SimpleNamespace\<close>.\<close>

fun getattr :: "pyval \<Rightarrow> string \<Rightarrow> error + pyval" where
  "getattr (PNamespace a) name =
     (case map_of a name of
        None \<Rightarrow> Inl (AttributeError name)
      | Some v \<Rightarrow> Inr v)"
| "getattr v name = Inl (AttributeError name)"

section \<open>The three normalizers\<close>

text \<open>
  An error carries the fixed text of the source's message, without the formatted value.
\<close>

definition default_eps :: pyfloat where
  "default_eps = Fin (1 / 10000)"

text \<open>\<^verbatim>\<open>MatrixFactorizationParam._parse_early_stop\<close>, lines 147 to 167.\<close>

definition parse_early_stop :: "pyval \<Rightarrow> error + pyval" where
  "parse_early_stop param =
     (if isinstance_str param then
        Inr (PNamespace [(''converge_func'', param), (''eps'', PFloat default_eps)])
      else (case param of
        PDict d \<Rightarrow>
          (let early_stop = dict_get d ''early_stop'' PNone;
               eps = dict_get d ''eps'' (PFloat default_eps)
           in if \<not> py_truthy early_stop then Inl (ValueError ''early_stop config invalid'')
              else Inr (PNamespace [(''converge_func'', early_stop), (''eps'', eps)]))
      | _ \<Rightarrow> Inl (ValueError ''invalid type for early_stop'')))"

text \<open>\<^verbatim>\<open>MatrixFactorizationParam._parse_optimizer\<close>, lines 169 to 189.\<close>

definition parse_optimizer :: "pyval \<Rightarrow> error + pyval" where
  "parse_optimizer param =
     (let kwargs = [] in
      if isinstance_str param then
        Inr (PNamespace [(''optimizer'', param), (''kwargs'', PDict kwargs)])
      else (case param of
        PDict d \<Rightarrow>
          (let optimizer = dict_get d ''optimizer'' (PDict kwargs)
           in if \<not> py_truthy optimizer then Inl (ValueError ''optimizer config invalid'')
              else Inr (PNamespace [(''optimizer'', optimizer),
                     (''kwargs'', PDict (filter (\<lambda>(k, v). k \<noteq> ''optimizer'') d))]))
      | _ \<Rightarrow> Inl (ValueError ''invalid type for optimize'')))"

text \<open>\<^verbatim>\<open>MatrixFactorizationParam._parse_metrics\<close>, lines 191 to 205.\<close>

definition parse_metrics :: "pyval \<Rightarrow> error + pyval" where
  "parse_metrics param =
     (if \<not> py_truthy param then Inr (PList [])
      else if isinstance_str param then Inr (PList [param])
      else if isinstance_list param then Inr param
      else Inl (ValueError ''invalid metrics type''))"

section \<open>The parameter objects\<close>

text \<open>
  \<^verbatim>\<open>MtxFInitParam\<close>, lines 32 to 39: the two attributes its own constructor sets. The
  attributes of the base class \<^verbatim>\<open>InitParam\<close> and its \<^verbatim>\<open>check()\<close> belong to the
  framework and are not part of this file.
\<close>

record MtxFInitParam =
  embed_dim :: pyval
  init_method :: pyval

definition MtxFInitParam_init :: "pyval \<Rightarrow> pyval \<Rightarrow> MtxFInitParam" where
  "MtxFInitParam_init embed_dim' init_method' =
     \<lparr>embed_dim = embed_dim', init_method = init_method'\<rparr>"

text \<open>The defaults of the constructor: \<^verbatim>\<open>embed_dim=10, init_method='random_normal'\<close>.\<close>

definition default_embed_dim :: pyval where
  "default_embed_dim = PInt 10"

definition default_init_method :: pyval where
  "default_init_method = PStr ''random_normal''"

text \<open>
  \<^verbatim>\<open>MatrixFactorizationParam\<close>, lines 72 to 99. The prediction and cross-validation
  sub-configurations are objects of the framework: their types are parameters.
\<close>

record ('pp, 'cv) MatrixFactorizationParam =
  secure_aggregate :: pyval
  aggregate_every_n_epoch :: pyval
  early_stop :: pyval
  metrics :: pyval
  loss :: pyval
  optimizer :: pyval
  batch_size :: pyval
  init_param :: MtxFInitParam
  max_iter :: pyval
  predict_param :: 'pp
  cv_param :: 'cv
  validation_freqs :: pyval

text \<open>\<^verbatim>\<open>HeteroMatrixParam\<close>, lines 208 to 237, adds one attribute to the base class.\<close>

record ('pp, 'cv) HeteroMatrixParam = "('pp, 'cv) MatrixFactorizationParam" +
  aggregate_iters :: pyval

text \<open>
  \<^verbatim>\<open>MatrixFactorizationParam.__init__\<close>: every argument is stored as it is given
  (\<^verbatim>\<open>copy.deepcopy\<close> of a value is the value).
\<close>

definition MatrixFactorizationParam_init ::
  "pyval \<Rightarrow> pyval \<Rightarrow> pyval \<Rightarrow> pyval \<Rightarrow> pyval \<Rightarrow> MtxFInitParam \<Rightarrow> pyval \<Rightarrow> 'pp \<Rightarrow> 'cv \<Rightarrow> pyval
     \<Rightarrow> pyval \<Rightarrow> pyval \<Rightarrow> ('pp, 'cv) MatrixFactorizationParam" where
  "MatrixFactorizationParam_init secure_aggregate' aggregate_every_n_epoch' early_stop'
       optimizer' batch_size' init_param' max_iter' predict_param' cv_param'
       validation_freqs' metrics' loss' =
     \<lparr>secure_aggregate = secure_aggregate',
      aggregate_every_n_epoch = aggregate_every_n_epoch',
      early_stop = early_stop',
      metrics = metrics',
      loss = loss',
      optimizer = optimizer',
      batch_size = batch_size',
      init_param = init_param',
      max_iter = max_iter',
      predict_param = predict_param',
      cv_param = cv_param',
      validation_freqs = validation_freqs'\<rparr>"

text \<open>
  \<^verbatim>\<open>HeteroMatrixParam.__init__\<close>, lines 222 to 237. The call of the base constructor
  passes eight keyword arguments; \<^verbatim>\<open>secure_aggregate\<close>, \<^verbatim>\<open>aggregate_every_n_epoch\<close>,
  \<^verbatim>\<open>metrics\<close> and \<^verbatim>\<open>loss\<close> take the base constructor's defaults.
\<close>

definition HeteroMatrixParam_init ::
  "pyval \<Rightarrow> pyval \<Rightarrow> pyval \<Rightarrow> pyval \<Rightarrow> pyval \<Rightarrow> pyval \<Rightarrow> MtxFInitParam \<Rightarrow> pyval \<Rightarrow> pyval
     \<Rightarrow> 'pp \<Rightarrow> 'cv \<Rightarrow> pyval \<Rightarrow> pyval \<Rightarrow> pyval \<Rightarrow> pyval \<Rightarrow> ('pp, 'cv) HeteroMatrixParam" where
  "HeteroMatrixParam_init penalty tol alpha optimizer' batch_size' learning_rate init_param'
       max_iter' early_stop' predict_param' cv_param' decay decay_sqrt aggregate_iters'
       validation_freqs' =
     MatrixFactorizationParam.extend
       (MatrixFactorizationParam_init (PBool True) (PInt 1) early_stop' optimizer'
          batch_size' init_param' max_iter' predict_param' cv_param' validation_freqs'
          PNone (PStr ''mse''))
       (HeteroMatrixParam.fields aggregate_iters')"

section \<open>Validation\<close>

text \<open>
  \<^verbatim>\<open>check()\<close> assigns to the attributes of \<^verbatim>\<open>self\<close> and may raise afterwards: it is a
  function from the object to the outcome (the error, or the value returned) and the
  object as the call leaves it.

  Two names of the framework are parameters: \<open>MIN_BATCH_SIZE\<close> is
  \<^verbatim>\<open>consts.MIN_BATCH_SIZE\<close>, and \<open>init_check\<close> is the \<^verbatim>\<open>check()\<close> that
  \<^verbatim>\<open>MtxFInitParam\<close> inherits from \<^verbatim>\<open>InitParam\<close>.
\<close>

type_synonym 'a outcome = "(error + pyval) \<times> 'a"

text \<open>Lines 112 to 116: the outcome of the batch-size test, \<open>None\<close> when it passes.\<close>

definition check_batch_size :: "int \<Rightarrow> pyval \<Rightarrow> error option" where
  "check_batch_size MIN_BATCH_SIZE b =
     (if py_eq_int b (- 1) then None
      else if \<not> type_is_int b then Some (ValueError ''batch_size not supported'')
      else (case py_lt_int b MIN_BATCH_SIZE of
              None \<Rightarrow> Some (TypeError ''<'')
            | Some lt \<Rightarrow> if lt then Some (ValueError ''batch_size not supported'') else None))"

text \<open>
  Lines 118 to 125 and 127 to 134: the test of one keyword argument of the optimizer,
  when the key is in \<^verbatim>\<open>self.optimizer.kwargs\<close>.
\<close>

definition check_kwarg :: "string \<Rightarrow> (string \<times> pyval) list \<Rightarrow> error option" where
  "check_kwarg key kwargs =
     (case map_of kwargs key of
        None \<Rightarrow> None
      | Some v \<Rightarrow>
          if \<not> isinstance_int_float v then Some (ValueError (key @ '' not supported''))
          else (case py_lt_int v 0 of
                  None \<Rightarrow> Some (TypeError ''<'')
                | Some lt \<Rightarrow> if lt then Some (ValueError (key @ '' not supported'')) else None))"

text \<open>Lines 138 to 143.\<close>

definition check_max_iter :: "pyval \<Rightarrow> error option" where
  "check_max_iter m =
     (case m of
        PInt n \<Rightarrow> if n \<le> 0 then Some (ValueError ''max_iter must be greater or equal to 1'')
                  else None
      | _ \<Rightarrow> Some (ValueError ''max_iter not supported, should be int type''))"

text \<open>
  Lines 112 to 145, on the object whose three fields lines 108 to 110 have normalized.
\<close>

definition check_values ::
  "int \<Rightarrow> (MtxFInitParam \<Rightarrow> MtxFInitParam outcome)
     \<Rightarrow> ('pp, 'cv, 'z) MatrixFactorizationParam_scheme
     \<Rightarrow> ('pp, 'cv, 'z) MatrixFactorizationParam_scheme outcome" where
  "check_values MIN_BATCH_SIZE init_check self =
     (case check_batch_size MIN_BATCH_SIZE (batch_size self) of
        Some e \<Rightarrow> (Inl e, self)
      | None \<Rightarrow>
     (case getattr (optimizer self) ''kwargs'' of
        Inl e \<Rightarrow> (Inl e, self)
      | Inr kw \<Rightarrow>
     (case kw of
        PDict kwargs \<Rightarrow>
          (case check_kwarg ''decay'' kwargs of
             Some e \<Rightarrow> (Inl e, self)
           | None \<Rightarrow>
          (case check_kwarg ''learning_rate'' kwargs of
             Some e \<Rightarrow> (Inl e, self)
           | None \<Rightarrow>
          (case init_check (init_param self) of
             (Inl e, ip) \<Rightarrow> (Inl e, self\<lparr>init_param := ip\<rparr>)
           | (Inr r, ip) \<Rightarrow>
          (case check_max_iter (max_iter self) of
             Some e \<Rightarrow> (Inl e, self\<lparr>init_param := ip\<rparr>)
           | None \<Rightarrow> (Inr (PBool True), self\<lparr>init_param := ip\<rparr>)))))
      | _ \<Rightarrow> (Inl (TypeError ''argument of type is not iterable''), self))))"

text \<open>
  \<^verbatim>\<open>MatrixFactorizationParam.check\<close>, lines 101 to 145. A normalizer that raises leaves
  its field as it was: the assignment of that line does not happen.
\<close>

definition check ::
  "int \<Rightarrow> (MtxFInitParam \<Rightarrow> MtxFInitParam outcome)
     \<Rightarrow> ('pp, 'cv, 'z) MatrixFactorizationParam_scheme
     \<Rightarrow> ('pp, 'cv, 'z) MatrixFactorizationParam_scheme outcome" where
  "check MIN_BATCH_SIZE init_check self =
     (case parse_early_stop (early_stop self) of
        Inl e \<Rightarrow> (Inl e, self)
      | Inr es \<Rightarrow>
     (case parse_optimizer (optimizer self) of
        Inl e \<Rightarrow> (Inl e, self\<lparr>early_stop := es\<rparr>)
      | Inr opt \<Rightarrow>
     (case parse_metrics (metrics self) of
        Inl e \<Rightarrow> (Inl e, self\<lparr>early_stop := es, optimizer := opt\<rparr>)
      | Inr ms \<Rightarrow>
          check_values MIN_BATCH_SIZE init_check
            (self\<lparr>early_stop := es, optimizer := opt, metrics := ms\<rparr>))))"

text \<open>\<^verbatim>\<open>HeteroMatrixParam.check\<close>, lines 239 to 251.\<close>

definition hetero_check ::
  "int \<Rightarrow> (MtxFInitParam \<Rightarrow> MtxFInitParam outcome)
     \<Rightarrow> ('pp, 'cv, 'z) HeteroMatrixParam_scheme
     \<Rightarrow> ('pp, 'cv, 'z) HeteroMatrixParam_scheme outcome" where
  "hetero_check MIN_BATCH_SIZE init_check self =
     (case check MIN_BATCH_SIZE init_check self of
        (Inl e, self') \<Rightarrow> (Inl e, self')
      | (Inr r, self') \<Rightarrow>
          if \<not> isinstance_int (aggregate_iters self')
          then (Inl (ValueError ''aggregate_iters not supported, should be int type''), self')
          else (Inr (PBool True), self'))"

section \<open>The serialization adapter\<close>

text \<open>
  Modelled from the spec: the persisted record \<^verbatim>\<open>mf_model_meta_pb2.HeteroMFParam\<close> is
  generated code of the framework and is missing from the repository. Its fields are the
  ones the spec lists: the secure-aggregate flag, the aggregation cadence, the batch
  size, the iteration cap, the early-stop message (method, epsilon), the repeated metric
  names, the optimizer message (name, text-encoded argument blob), the loss name and the
  embedding dimension.
\<close>

record EarlyStop_pb =
  pb_es_early_stop :: string
  pb_es_eps :: pyfloat

record Optimizer_pb =
  pb_opt_optimizer :: string
  pb_opt_args :: string

record HeteroMFParam_pb =
  pb_secure_aggregate :: bool
  pb_aggregate_every_n_epoch :: int
  pb_batch_size :: int
  pb_max_iter :: int
  pb_early_stop :: EarlyStop_pb
  pb_metrics :: "string list"
  pb_optimizer :: Optimizer_pb
  pb_loss :: string
  pb_embed_dim :: int

text \<open>
  Modelled from the spec: assigning to a field of the record. The record is typed, and
  an assignment of a value of another type raises \<^verbatim>\<open>TypeError\<close>; an integer field
  holds the integers \<open>int_field\<close> accepts (the width the schema declares, a
  parameter).
\<close>

fun to_bool_field :: "pyval \<Rightarrow> error + bool" where
  "to_bool_field (PBool b) = Inr b"
| "to_bool_field v = Inl (TypeError ''bool field'')"

fun to_int_field :: "(int \<Rightarrow> bool) \<Rightarrow> pyval \<Rightarrow> error + int" where
  "to_int_field int_field (PInt n) =
     (if int_field n then Inr n else Inl (ValueError ''value out of range''))"
| "to_int_field int_field v = Inl (TypeError ''int field'')"

fun to_float_field :: "pyval \<Rightarrow> error + pyfloat" where
  "to_float_field (PFloat f) = Inr f"
| "to_float_field v = Inl (TypeError ''float field'')"

fun to_string_field :: "pyval \<Rightarrow> error + string" where
  "to_string_field (PStr s) = Inr s"
| "to_string_field v = Inl (TypeError ''string field'')"

text \<open>Sequencing of steps that may raise: the first error ends the computation.\<close>

definition bind_result :: "error + 'a \<Rightarrow> ('a \<Rightarrow> error + 'b) \<Rightarrow> error + 'b" where
  "bind_result r f = (case r of Inl e \<Rightarrow> Inl e | Inr x \<Rightarrow> f x)"

text \<open>Lines 266 and 267: the loop that appends each metric to the repeated field.\<close>

fun append_metrics :: "string list \<Rightarrow> pyval list \<Rightarrow> error + string list" where
  "append_metrics acc [] = Inr acc"
| "append_metrics acc (metric # rest) =
     bind_result (to_string_field metric) (\<lambda>m. append_metrics (acc @ [m]) rest)"

text \<open>
  \<^verbatim>\<open>for metric in self.metrics\<close>: the elements of a list or a tuple, the characters
  of a string, the keys of a dict.
\<close>

fun iter_elements :: "pyval \<Rightarrow> error + pyval list" where
  "iter_elements (PList xs) = Inr xs"
| "iter_elements (PTuple xs) = Inr xs"
| "iter_elements (PStr s) = Inr (map (\<lambda>c. PStr [c]) s)"
| "iter_elements (PDict d) = Inr (map (\<lambda>(k, v). PStr k) d)"
| "iter_elements v = Inl (TypeError ''object is not iterable'')"

text \<open>
  \<^verbatim>\<open>HeteroMatrixParam.generate_pb\<close>, lines 253 to 273. \<open>json_dumps\<close> is
  \<^verbatim>\<open>json.dumps\<close> of the standard library, a parameter.
\<close>

definition generate_pb ::
  "(int \<Rightarrow> bool) \<Rightarrow> (pyval \<Rightarrow> error + string)
     \<Rightarrow> ('pp, 'cv, 'z) HeteroMatrixParam_scheme \<Rightarrow> error + HeteroMFParam_pb" where
  "generate_pb int_field json_dumps self =
     bind_result (to_bool_field (secure_aggregate self)) (\<lambda>sa.
     bind_result (to_int_field int_field (aggregate_every_n_epoch self)) (\<lambda>ag.
     bind_result (to_int_field int_field (batch_size self)) (\<lambda>bs.
     bind_result (to_int_field int_field (max_iter self)) (\<lambda>mi.
     bind_result (getattr (early_stop self) ''converge_func'') (\<lambda>cf.
     bind_result (to_string_field cf) (\<lambda>es.
     bind_result (getattr (early_stop self) ''eps'') (\<lambda>ev.
     bind_result (to_float_field ev) (\<lambda>eps.
     bind_result (iter_elements (metrics self)) (\<lambda>elems.
     bind_result (append_metrics [] elems) (\<lambda>ms.
     bind_result (getattr (optimizer self) ''optimizer'') (\<lambda>ov.
     bind_result (to_string_field ov) (\<lambda>opt.
     bind_result (getattr (optimizer self) ''kwargs'') (\<lambda>kw.
     bind_result (json_dumps kw) (\<lambda>args.
     bind_result (to_string_field (loss self)) (\<lambda>ls.
     bind_result (to_int_field int_field (embed_dim (init_param self))) (\<lambda>ed.
       Inr \<lparr>pb_secure_aggregate = sa,
            pb_aggregate_every_n_epoch = ag,
            pb_batch_size = bs,
            pb_max_iter = mi,
            pb_early_stop = \<lparr>pb_es_early_stop = es, pb_es_eps = eps\<rparr>,
            pb_metrics = ms,
            pb_optimizer = \<lparr>pb_opt_optimizer = opt, pb_opt_args = args\<rparr>,
            pb_loss = ls,
            pb_embed_dim = ed\<rparr>))))))))))))))))"

text \<open>
  \<^verbatim>\<open>dict(optimizer=name, **loaded)\<close> of line 286: \<open>loaded\<close> must be a mapping, and
  a key \<^verbatim>\<open>optimizer\<close> in it is a second value for the keyword, a \<^verbatim>\<open>TypeError\<close>.
\<close>

definition optimizer_dict :: "string \<Rightarrow> pyval \<Rightarrow> error + pyval" where
  "optimizer_dict name loaded =
     (case loaded of
        PDict kw \<Rightarrow>
          if map_of kw ''optimizer'' \<noteq> None
          then Inl (TypeError ''multiple values for keyword argument optimizer'')
          else Inr (PDict ((''optimizer'', PStr name) # kw))
      | _ \<Rightarrow> Inl (TypeError ''argument after ** must be a mapping''))"

text \<open>
  \<^verbatim>\<open>HeteroMatrixParam.restore_from_pb\<close>, lines 275 to 288: the attributes are assigned
  one after the other, so a line that raises leaves the earlier assignments in place.
  \<open>json_loads\<close> is \<^verbatim>\<open>json.loads\<close>, a parameter.
\<close>

definition restore_from_pb ::
  "(string \<Rightarrow> error + pyval) \<Rightarrow> ('pp, 'cv, 'z) HeteroMatrixParam_scheme
     \<Rightarrow> HeteroMFParam_pb \<Rightarrow> ('pp, 'cv, 'z) HeteroMatrixParam_scheme outcome" where
  "restore_from_pb json_loads self pb =
     (let s1 = self\<lparr>secure_aggregate := PBool (pb_secure_aggregate pb),
                    aggregate_every_n_epoch := PInt (pb_aggregate_every_n_epoch pb),
                    batch_size := PInt (pb_batch_size pb),
                    max_iter := PInt (pb_max_iter pb)\<rparr>
      in
      case parse_early_stop
             (PDict [(''early_stop'', PStr (pb_es_early_stop (pb_early_stop pb))),
                     (''eps'', PFloat (pb_es_eps (pb_early_stop pb)))]) of
        Inl e \<Rightarrow> (Inl e, s1)
      | Inr es \<Rightarrow>
          (let s2 = s1\<lparr>early_stop := es, metrics := PList (map PStr (pb_metrics pb))\<rparr>
           in
           case bind_result (json_loads (pb_opt_args (pb_optimizer pb)))
                  (\<lambda>loaded. bind_result
                     (optimizer_dict (pb_opt_optimizer (pb_optimizer pb)) loaded)
                     parse_optimizer) of
             Inl e \<Rightarrow> (Inl e, s2)
           | Inr opt \<Rightarrow>
               (Inr PNone,
                s2\<lparr>optimizer := opt,
                   loss := PStr (pb_loss pb),
                   init_param :=
                     MtxFInitParam_init (PInt (pb_embed_dim pb)) default_init_method\<rparr>)))"

section \<open>Concrete collaborators\<close>

text \<open>
  Instances of the framework's names, for evaluating the functions above on concrete
  objects: the minimum batch size of the framework's constants module, an
  \<^verbatim>\<open>InitParam.check()\<close> that accepts the object and leaves it as it is, 32-bit integer
  fields, and \<^verbatim>\<open>json.dumps\<close> and \<^verbatim>\<open>json.loads\<close> on the empty dict, whose text is
  \<^verbatim>\<open>{}\<close>.
\<close>

definition MIN_BATCH_SIZE_10 :: int where
  "MIN_BATCH_SIZE_10 = 10"

definition init_check_accept :: "MtxFInitParam \<Rightarrow> MtxFInitParam outcome" where
  "init_check_accept ip = (Inr (PBool True), ip)"

definition int32_field :: "int \<Rightarrow> bool" where
  "int32_field n = (- 2147483648 \<le> n \<and> n \<le> 2147483647)"

definition json_dumps_empty :: "pyval \<Rightarrow> error + string" where
  "json_dumps_empty v =
     (if v = PDict [] then Inr ''{}'' else Inl (TypeError ''not JSON serializable''))"

definition json_loads_empty :: "string \<Rightarrow> error + pyval" where
  "json_loads_empty s =
     (if s = ''{}'' then Inr (PDict []) else Inl (ValueError ''JSONDecodeError''))"

text \<open>\<^verbatim>\<open>MatrixFactorizationParam()\<close> and \<^verbatim>\<open>HeteroMatrixParam()\<close> with every default.\<close>

definition default_param :: "(unit, unit) MatrixFactorizationParam" where
  "default_param =
     MatrixFactorizationParam_init (PBool True) (PInt 1) (PStr ''diff'') (PStr ''SGD'')
       (PInt (- 1)) (MtxFInitParam_init default_embed_dim default_init_method) (PInt 100)
       () () PNone PNone (PStr ''mse'')"

definition hetero_param :: "pyval \<Rightarrow> pyval \<Rightarrow> pyval \<Rightarrow> pyval \<Rightarrow> (unit, unit) HeteroMatrixParam" where
  "hetero_param optimizer' batch_size' max_iter' early_stop' =
     HeteroMatrixParam_init (PStr ''L2'') (PFloat (Fin (1 / 100000))) (PFloat (Fin 1))
       optimizer' batch_size' (PFloat (Fin (1 / 100)))
       (MtxFInitParam_init default_embed_dim default_init_method)
       max_iter' early_stop' () () (PInt 1) (PBool True) (PInt 1) PNone"

definition default_hetero_param :: "(unit, unit) HeteroMatrixParam" where
  "default_hetero_param = hetero_param (PStr ''sgd'') (PInt (- 1)) (PInt 100) (PStr ''diff'')"

section \<open>Facts about the normalizers and the validation steps\<close>

lemma parse_early_stop_error:
  "parse_early_stop v = Inl e \<Longrightarrow> \<exists>msg. e = ValueError msg"
  by (cases v) (auto simp: parse_early_stop_def Let_def split: if_splits)

lemma parse_optimizer_error:
  "parse_optimizer v = Inl e \<Longrightarrow> \<exists>msg. e = ValueError msg"
  by (cases v) (auto simp: parse_optimizer_def Let_def split: if_splits)

lemma parse_metrics_error:
  "parse_metrics v = Inl e \<Longrightarrow> \<exists>msg. e = ValueError msg"
  by (auto simp: parse_metrics_def split: if_splits)

lemma parse_early_stop_shape:
  "parse_early_stop v = Inr es \<Longrightarrow>
     \<exists>cf eps. es = PNamespace [(''converge_func'', cf), (''eps'', eps)]"
  by (cases v) (auto simp: parse_early_stop_def Let_def split: if_splits)

lemma parse_optimizer_shape:
  "parse_optimizer v = Inr opt \<Longrightarrow>
     \<exists>nm kw. opt = PNamespace [(''optimizer'', nm), (''kwargs'', PDict kw)]
        \<and> map_of kw ''optimizer'' = None"
  by (cases v) (auto simp: parse_optimizer_def Let_def map_of_eq_None_iff split: if_splits)

lemma parse_metrics_shape:
  "parse_metrics v = Inr ms \<Longrightarrow> \<exists>xs. ms = PList xs"
  by (cases v) (auto simp: parse_metrics_def split: if_splits)

lemma check_batch_size_error:
  "check_batch_size m b = Some e \<Longrightarrow> \<exists>msg. e = ValueError msg"
  by (cases b) (auto simp: check_batch_size_def split: if_splits)

lemma check_kwarg_error:
  "check_kwarg key kw = Some e \<Longrightarrow> \<exists>msg. e = ValueError msg"
  unfolding check_kwarg_def
  by (auto split: option.splits if_splits elim!: isinstance_int_float.elims)

lemma check_max_iter_error:
  "check_max_iter m = Some e \<Longrightarrow> \<exists>msg. e = ValueError msg"
  by (cases m) (auto simp: check_max_iter_def split: if_splits)

lemma check_normalized:
  assumes "parse_early_stop (early_stop p) = Inr es"
    and "parse_optimizer (optimizer p) = Inr opt"
    and "parse_metrics (metrics p) = Inr ms"
  shows "check m ic p = check_values m ic (p\<lparr>early_stop := es, optimizer := opt, metrics := ms\<rparr>)"
  using assms by (simp add: check_def)

lemma check_values_fields:
  "early_stop (snd (check_values m ic p)) = early_stop p
   \<and> optimizer (snd (check_values m ic p)) = optimizer p
   \<and> metrics (snd (check_values m ic p)) = metrics p"
  by (simp add: check_values_def split: option.splits sum.splits pyval.splits prod.splits)

lemma check_values_success:
  assumes "check_batch_size m (batch_size p) = None"
    and "getattr (optimizer p) ''kwargs'' = Inr (PDict kw)"
    and "check_kwarg ''decay'' kw = None"
    and "check_kwarg ''learning_rate'' kw = None"
    and "fst (ic (init_param p)) = Inr r"
    and "check_max_iter (max_iter p) = None"
  shows "check_values m ic p = (Inr (PBool True), p\<lparr>init_param := snd (ic (init_param p))\<rparr>)"
  using assms by (cases "ic (init_param p)") (simp add: check_values_def)

lemma check_values_error:
  assumes "fst (check_values m ic p) = Inl e"
    and "getattr (optimizer p) ''kwargs'' = Inr (PDict kw)"
    and "\<And>e'. fst (ic (init_param p)) = Inl e' \<Longrightarrow> \<exists>msg. e' = ValueError msg"
  shows "\<exists>msg. e = ValueError msg"
  using assms
  by (cases "ic (init_param p)")
     (auto simp: check_values_def split: option.splits sum.splits
        dest: check_batch_size_error check_kwarg_error check_max_iter_error)

lemma check_fails_with_values:
  assumes "\<And>es opt ms. parse_early_stop (early_stop p) = Inr es \<Longrightarrow>
             parse_optimizer (optimizer p) = Inr opt \<Longrightarrow>
             parse_metrics (metrics p) = Inr ms \<Longrightarrow>
             \<exists>msg. fst (check_values m ic (p\<lparr>early_stop := es, optimizer := opt, metrics := ms\<rparr>))
                     = Inl (ValueError msg)"
  shows "\<exists>msg. fst (check m ic p) = Inl (ValueError msg)"
proof (cases "parse_early_stop (early_stop p)")
  case (Inl e)
  then show ?thesis using parse_early_stop_error [OF Inl] by (auto simp: check_def)
next
  case es: (Inr es')
  show ?thesis
  proof (cases "parse_optimizer (optimizer p)")
    case (Inl e)
    then show ?thesis using es parse_optimizer_error [OF Inl] by (auto simp: check_def)
  next
    case opt: (Inr opt')
    show ?thesis
    proof (cases "parse_metrics (metrics p)")
      case (Inl e)
      then show ?thesis using es opt parse_metrics_error [OF Inl] by (auto simp: check_def)
    next
      case (Inr ms')
      then show ?thesis using es opt assms [OF es opt Inr] by (simp add: check_normalized)
    qed
  qed
qed

lemma check_succeeds:
  assumes "parse_early_stop (early_stop p) = Inr es"
    and "parse_optimizer (optimizer p) = Inr opt"
    and "parse_metrics (metrics p) = Inr ms"
    and "check_batch_size m (batch_size p) = None"
    and "getattr opt ''kwargs'' = Inr (PDict kw)"
    and "check_kwarg ''decay'' kw = None"
    and "check_kwarg ''learning_rate'' kw = None"
    and "fst (ic (init_param p)) = Inr r"
    and "check_max_iter (max_iter p) = None"
  shows "check m ic p =
           (Inr (PBool True),
            p\<lparr>early_stop := es, optimizer := opt, metrics := ms,
              init_param := snd (ic (init_param p))\<rparr>)"
proof -
  let ?q = "p\<lparr>early_stop := es, optimizer := opt, metrics := ms\<rparr>"
  have "check m ic p = check_values m ic ?q"
    using assms(1-3) by (rule check_normalized)
  also have "\<dots> = (Inr (PBool True), ?q\<lparr>init_param := snd (ic (init_param ?q))\<rparr>)"
    using assms(4-9) by (intro check_values_success [where kw = kw and r = r]) simp_all
  finally show ?thesis by simp
qed

lemma check_kwarg_bad:
  assumes "map_of kw key = Some v"
    and "\<not> isinstance_int_float v \<or> py_lt_int v 0 = Some True"
  shows "check_kwarg key kw = Some (ValueError (key @ '' not supported''))"
  using assms by (cases v) (auto simp: check_kwarg_def)

lemma check_kwarg_good:
  assumes "\<And>v. map_of kw key = Some v \<Longrightarrow> isinstance_int_float v \<and> py_lt_int v 0 = Some False"
  shows "check_kwarg key kw = None"
  using assms by (auto simp: check_kwarg_def split: option.splits)

lemma check_values_kwarg_fails:
  assumes "getattr (optimizer p) ''kwargs'' = Inr (PDict kw)"
    and "key = ''decay'' \<or> key = ''learning_rate''"
    and "check_kwarg key kw = Some e"
  shows "\<exists>msg. fst (check_values m ic p) = Inl (ValueError msg)"
  using assms
  by (auto simp: check_values_def split: option.splits
        dest: check_batch_size_error check_kwarg_error)

lemma check_values_max_iter_fails:
  assumes "getattr (optimizer p) ''kwargs'' = Inr (PDict kw)"
    and "check_max_iter (max_iter p) = Some e"
    and "\<And>e'. fst (ic (init_param p)) = Inl e' \<Longrightarrow> \<exists>msg. e' = ValueError msg"
  shows "\<exists>msg. fst (check_values m ic p) = Inl (ValueError msg)"
proof (cases "fst (check_values m ic p)")
  case (Inl e')
  then show ?thesis using check_values_error [OF Inl assms(1) assms(3)] by auto
next
  case (Inr r)
  then show ?thesis using assms(2)
    by (auto simp: check_values_def split: option.splits sum.splits pyval.splits prod.splits)
qed

lemma check_success_max_iter:
  assumes "fst (check m ic p) = Inr r"
  shows "check_max_iter (max_iter p) = None"
  using assms
  by (auto simp: check_def check_values_def
        split: sum.splits option.splits pyval.splits prod.splits)

lemma check_twice_fails:
  assumes "fst (check m ic p) = Inr r"
  shows "check m ic (snd (check m ic p)) =
           (Inl (ValueError ''invalid type for early_stop''), snd (check m ic p))"
proof -
  obtain es where es: "parse_early_stop (early_stop p) = Inr es"
    using assms by (cases "parse_early_stop (early_stop p)") (auto simp: check_def)
  obtain opt where opt: "parse_optimizer (optimizer p) = Inr opt"
    using assms es by (cases "parse_optimizer (optimizer p)") (auto simp: check_def)
  obtain ms where ms: "parse_metrics (metrics p) = Inr ms"
    using assms es opt by (cases "parse_metrics (metrics p)") (auto simp: check_def)
  let ?q = "p\<lparr>early_stop := es, optimizer := opt, metrics := ms\<rparr>"
  have "early_stop (snd (check m ic p)) = es"
    using check_values_fields [of m ic ?q] check_normalized [OF es opt ms, of m ic] by simp
  moreover obtain cf eps where "es = PNamespace [(''converge_func'', cf), (''eps'', eps)]"
    using parse_early_stop_shape [OF es] by blast
  ultimately have "parse_early_stop (early_stop (snd (check m ic p)))
                     = Inl (ValueError ''invalid type for early_stop'')"
    by (simp add: parse_early_stop_def)
  then show ?thesis by (simp add: check_def)
qed

section \<open>Facts about the concrete objects\<close>

lemma default_param_fields:
  "early_stop default_param = PStr ''diff''"
  "optimizer default_param = PStr ''SGD''"
  "metrics default_param = PNone"
  "batch_size default_param = PInt (- 1)"
  "max_iter default_param = PInt 100"
  "init_param default_param = MtxFInitParam_init default_embed_dim default_init_method"
  by (simp_all add: default_param_def MatrixFactorizationParam_init_def)

lemma parse_defaults:
  "parse_early_stop (PStr ''diff'') =
     Inr (PNamespace [(''converge_func'', PStr ''diff''), (''eps'', PFloat default_eps)])"
  "parse_optimizer (PStr ''SGD'') =
     Inr (PNamespace [(''optimizer'', PStr ''SGD''), (''kwargs'', PDict [])])"
  "parse_metrics PNone = Inr (PList [])"
  by (simp_all add: parse_early_stop_def parse_optimizer_def parse_metrics_def)

lemma check_bad_batch:
  "check MIN_BATCH_SIZE_10 init_check_accept (default_param\<lparr>batch_size := PInt 5\<rparr>) =
     (Inl (ValueError ''batch_size not supported''),
      default_param\<lparr>batch_size := PInt 5,
        early_stop := PNamespace [(''converge_func'', PStr ''diff''), (''eps'', PFloat default_eps)],
        optimizer := PNamespace [(''optimizer'', PStr ''SGD''), (''kwargs'', PDict [])],
        metrics := PList []\<rparr>)"
  by (simp add: check_def check_values_def default_param_fields parse_defaults
        check_batch_size_def MIN_BATCH_SIZE_10_def)

lemma hetero_check_default:
  "hetero_check MIN_BATCH_SIZE_10 init_check_accept default_hetero_param =
     (Inr (PBool True),
      default_hetero_param\<lparr>
        early_stop := PNamespace [(''converge_func'', PStr ''diff''), (''eps'', PFloat default_eps)],
        optimizer := PNamespace [(''optimizer'', PStr ''sgd''), (''kwargs'', PDict [])],
        metrics := PList []\<rparr>)"
  by (simp add: hetero_check_def check_def check_values_def default_hetero_param_def
        hetero_param_def HeteroMatrixParam_init_def MatrixFactorizationParam_init_def
        MatrixFactorizationParam.extend_def HeteroMatrixParam.fields_def
        parse_early_stop_def parse_optimizer_def parse_metrics_def
        check_batch_size_def check_kwarg_def check_max_iter_def init_check_accept_def)

section \<open>Facts about the serialization adapter\<close>

lemma filter_optimizer_key:
  "map_of kw ''optimizer'' = None \<Longrightarrow> filter (\<lambda>(k, v). k \<noteq> ''optimizer'') kw = kw"
  by (induction kw) (auto split: if_splits)

lemma append_metrics_strings:
  "append_metrics acc (map PStr ms) = Inr (acc @ ms)"
  by (induction ms arbitrary: acc) (simp_all add: bind_result_def)

lemma bind_result_Inr [simp]: "bind_result (Inr x) f = f x"
  by (simp add: bind_result_def)

lemma bind_result_Inl [simp]: "bind_result (Inl e) f = Inl e"
  by (simp add: bind_result_def)

lemma generate_pb_canonical:
  assumes "secure_aggregate p = PBool sa"
    and "aggregate_every_n_epoch p = PInt ag" and "int_field ag"
    and "batch_size p = PInt bs" and "int_field bs"
    and "max_iter p = PInt mi" and "int_field mi"
    and "early_stop p = PNamespace [(''converge_func'', PStr cf), (''eps'', PFloat eps)]"
    and "metrics p = PList (map PStr ms)"
    and "optimizer p = PNamespace [(''optimizer'', PStr nm), (''kwargs'', PDict kw)]"
    and "json_dumps (PDict kw) = Inr args"
    and "loss p = PStr ls"
    and "embed_dim (init_param p) = PInt ed" and "int_field ed"
  shows "generate_pb int_field json_dumps p =
           Inr \<lparr>pb_secure_aggregate = sa,
                pb_aggregate_every_n_epoch = ag,
                pb_batch_size = bs,
                pb_max_iter = mi,
                pb_early_stop = \<lparr>pb_es_early_stop = cf, pb_es_eps = eps\<rparr>,
                pb_metrics = ms,
                pb_optimizer = \<lparr>pb_opt_optimizer = nm, pb_opt_args = args\<rparr>,
                pb_loss = ls,
                pb_embed_dim = ed\<rparr>"
  using assms append_metrics_strings [of "[]" ms]
  by (simp add: generate_pb_def)

lemma restore_from_pb_canonical:
  assumes "cf \<noteq> []" and "nm \<noteq> []"
    and "map_of kw ''optimizer'' = None"
    and "json_loads args = Inr (PDict kw)"
  shows "restore_from_pb json_loads q
           \<lparr>pb_secure_aggregate = sa,
            pb_aggregate_every_n_epoch = ag,
            pb_batch_size = bs,
            pb_max_iter = mi,
            pb_early_stop = \<lparr>pb_es_early_stop = cf, pb_es_eps = eps\<rparr>,
            pb_metrics = ms,
            pb_optimizer = \<lparr>pb_opt_optimizer = nm, pb_opt_args = args\<rparr>,
            pb_loss = ls,
            pb_embed_dim = ed\<rparr>
         = (Inr PNone,
            q\<lparr>secure_aggregate := PBool sa,
              aggregate_every_n_epoch := PInt ag,
              batch_size := PInt bs,
              max_iter := PInt mi,
              early_stop := PNamespace [(''converge_func'', PStr cf), (''eps'', PFloat eps)],
              metrics := PList (map PStr ms),
              optimizer := PNamespace [(''optimizer'', PStr nm), (''kwargs'', PDict kw)],
              loss := PStr ls,
              init_param := MtxFInitParam_init (PInt ed) default_init_method\<rparr>)"
  using assms
  by (simp add: restore_from_pb_def parse_early_stop_def parse_optimizer_def dict_get_def
        optimizer_dict_def filter_optimizer_key)

section \<open>The normalizers\<close>

text \<open>
  Claim C3, as the code has it. The early-stop normalizer maps every string \<open>s\<close> to the
  pair (method \<open>s\<close>, epsilon \<open>0.0001\<close>). It maps a mapping whose method entry is a
  true value (a non-empty string, for one) to that method and the mapping's epsilon, or
  the default epsilon when the mapping has none. It fails with an input error for a
  mapping whose method entry is missing or is a false value (the empty string,
  \<^verbatim>\<open>None\<close>, zero, an empty container), and for every input that is neither a string
  nor a mapping.
\<close>

theorem parse_early_stop_cases:
  "parse_early_stop (PStr s) =
       Inr (PNamespace [(''converge_func'', PStr s), (''eps'', PFloat default_eps)])
   \<and> (map_of d ''early_stop'' = Some mth \<and> py_truthy mth \<and> map_of d ''eps'' = Some e \<longrightarrow>
        parse_early_stop (PDict d) =
          Inr (PNamespace [(''converge_func'', mth), (''eps'', e)]))
   \<and> (map_of d ''early_stop'' = Some mth \<and> py_truthy mth \<and> map_of d ''eps'' = None \<longrightarrow>
        parse_early_stop (PDict d) =
          Inr (PNamespace [(''converge_func'', mth), (''eps'', PFloat default_eps)]))
   \<and> (map_of d ''early_stop'' = Some mth \<and> \<not> py_truthy mth \<longrightarrow>
        parse_early_stop (PDict d) = Inl (ValueError ''early_stop config invalid''))
   \<and> (map_of d ''early_stop'' = None \<longrightarrow>
        parse_early_stop (PDict d) = Inl (ValueError ''early_stop config invalid''))
   \<and> (\<not> isinstance_str v \<and> \<not> isinstance_dict v \<longrightarrow>
        parse_early_stop v = Inl (ValueError ''invalid type for early_stop''))"
  by (cases v) (simp_all add: parse_early_stop_def dict_get_def)

text \<open>
  The theorem at the spec's example \<^verbatim>\<open>{"early_stop": "abs", "eps": 0.01}\<close>, at a
  string, at a mapping without the method key and at an integer.
\<close>

theorem parse_early_stop_cases_witness:
  "parse_early_stop (PStr ''diff'') =
       Inr (PNamespace [(''converge_func'', PStr ''diff''), (''eps'', PFloat default_eps)])
   \<and> parse_early_stop
         (PDict [(''early_stop'', PStr ''abs''), (''eps'', PFloat (Fin (1 / 100)))]) =
       Inr (PNamespace [(''converge_func'', PStr ''abs''), (''eps'', PFloat (Fin (1 / 100)))])
   \<and> parse_early_stop (PDict [(''eps'', PFloat (Fin (1 / 100)))]) =
       Inl (ValueError ''early_stop config invalid'')
   \<and> parse_early_stop (PInt 3) = Inl (ValueError ''invalid type for early_stop'')"
  using parse_early_stop_cases [where s = "''diff''"
          and d = "[(''early_stop'', PStr ''abs''), (''eps'', PFloat (Fin (1 / 100)))]"
          and mth = "PStr ''abs''" and e = "PFloat (Fin (1 / 100))" and v = "PInt 3"]
        parse_early_stop_cases [where s = "''diff''"
          and d = "[(''eps'', PFloat (Fin (1 / 100)))]"
          and mth = "PStr ''abs''" and e = "PFloat (Fin (1 / 100))" and v = "PInt 3"]
  by simp

text \<open>
  Claim C3 as the spec states it fails: this mapping contains the method key and an
  epsilon, and the normalizer raises, because the method is the empty string
  (line 163, \<^verbatim>\<open>if not early_stop\<close>).
\<close>

theorem parse_early_stop_empty_method:
  "map_of [(''early_stop'', PStr ''''), (''eps'', PFloat (Fin (1 / 100)))] ''early_stop''
       = Some (PStr '''')
   \<and> parse_early_stop (PDict [(''early_stop'', PStr ''''), (''eps'', PFloat (Fin (1 / 100)))])
       = Inl (ValueError ''early_stop config invalid'')"
  by (simp add: parse_early_stop_def dict_get_def)

text \<open>
  Claim C4, as the code has it. The optimizer normalizer maps every string to the pair
  (that name, no arguments). It maps a mapping whose optimizer-name entry is a true value
  to that name and the mapping's entries without the optimizer-name key, in their order.
  It fails with an input error for a mapping whose name entry is missing or is a false
  value, and for every input that is neither a string nor a mapping.
\<close>

theorem parse_optimizer_cases:
  "parse_optimizer (PStr s) =
       Inr (PNamespace [(''optimizer'', PStr s), (''kwargs'', PDict [])])
   \<and> (map_of d ''optimizer'' = Some nm \<and> py_truthy nm \<longrightarrow>
        parse_optimizer (PDict d) =
          Inr (PNamespace [(''optimizer'', nm),
                 (''kwargs'', PDict (filter (\<lambda>(k, v). k \<noteq> ''optimizer'') d))]))
   \<and> (map_of d ''optimizer'' = Some nm \<and> \<not> py_truthy nm \<longrightarrow>
        parse_optimizer (PDict d) = Inl (ValueError ''optimizer config invalid''))
   \<and> (map_of d ''optimizer'' = None \<longrightarrow>
        parse_optimizer (PDict d) = Inl (ValueError ''optimizer config invalid''))
   \<and> (\<not> isinstance_str v \<and> \<not> isinstance_dict v \<longrightarrow>
        parse_optimizer v = Inl (ValueError ''invalid type for optimize''))"
  by (cases v) (simp_all add: parse_optimizer_def dict_get_def)

text \<open>
  The theorem at the docstring's example \<^verbatim>\<open>{"optimizer": "SGD", "learning_rate": 0.05}\<close>,
  at a string, at a mapping whose name is \<^verbatim>\<open>None\<close>, at a mapping without a name and at
  a list.
\<close>

theorem parse_optimizer_cases_witness:
  "parse_optimizer (PStr ''SGD'') =
       Inr (PNamespace [(''optimizer'', PStr ''SGD''), (''kwargs'', PDict [])])
   \<and> parse_optimizer
         (PDict [(''optimizer'', PStr ''SGD''), (''learning_rate'', PFloat (Fin (5 / 100)))]) =
       Inr (PNamespace [(''optimizer'', PStr ''SGD''),
              (''kwargs'', PDict [(''learning_rate'', PFloat (Fin (5 / 100)))])])
   \<and> parse_optimizer (PDict [(''optimizer'', PNone)]) =
       Inl (ValueError ''optimizer config invalid'')
   \<and> parse_optimizer (PDict [(''learning_rate'', PFloat (Fin (5 / 100)))]) =
       Inl (ValueError ''optimizer config invalid'')
   \<and> parse_optimizer (PList []) = Inl (ValueError ''invalid type for optimize'')"
  using parse_optimizer_cases [where s = "''SGD''"
          and d = "[(''optimizer'', PStr ''SGD''), (''learning_rate'', PFloat (Fin (5 / 100)))]"
          and nm = "PStr ''SGD''" and v = "PList []"]
        parse_optimizer_cases [where s = "''SGD''" and d = "[(''optimizer'', PNone)]"
          and nm = PNone and v = "PList []"]
        parse_optimizer_cases [where s = "''SGD''"
          and d = "[(''learning_rate'', PFloat (Fin (5 / 100)))]"
          and nm = PNone and v = "PList []"]
  by simp

text \<open>
  Claim C4 as the spec states it fails: this mapping contains the optimizer-name key,
  and the normalizer raises instead of returning the name and the other entries, because
  the name is the empty string (line 184, \<^verbatim>\<open>if not optimizer\<close>).
\<close>

theorem parse_optimizer_empty_name:
  "map_of [(''optimizer'', PStr ''''), (''learning_rate'', PFloat (Fin (5 / 100)))] ''optimizer''
       = Some (PStr '''')
   \<and> parse_optimizer
         (PDict [(''optimizer'', PStr ''''), (''learning_rate'', PFloat (Fin (5 / 100)))])
       = Inl (ValueError ''optimizer config invalid'')"
  by (simp add: parse_optimizer_def dict_get_def)

text \<open>
  Claim C5, as the code has it. The metrics normalizer returns the empty list for every
  false input: \<^verbatim>\<open>None\<close>, and also the empty string, the empty list, zero,
  \<^verbatim>\<open>False\<close> and an empty dict or tuple (line 198, \<^verbatim>\<open>if not param\<close>). It returns
  the one-element list \<open>[s]\<close> for every non-empty string \<open>s\<close> and the list itself for
  every list. It fails with an input error for every true input of another type.
\<close>

theorem parse_metrics_cases:
  "parse_metrics PNone = Inr (PList [])
   \<and> (\<not> py_truthy v \<longrightarrow> parse_metrics v = Inr (PList []))
   \<and> (s \<noteq> [] \<longrightarrow> parse_metrics (PStr s) = Inr (PList [PStr s]))
   \<and> parse_metrics (PList xs) = Inr (PList xs)
   \<and> (py_truthy v \<and> \<not> isinstance_str v \<and> \<not> isinstance_list v \<longrightarrow>
        parse_metrics v = Inl (ValueError ''invalid metrics type''))"
  by (cases xs) (simp_all add: parse_metrics_def)

text \<open>
  The theorem at the docstring's examples \<^verbatim>\<open>"Accuracy"\<close> and \<^verbatim>\<open>["Accuracy"]\<close>, at
  the false value \<^verbatim>\<open>False\<close> and at the true value 7.
\<close>

theorem parse_metrics_cases_witness:
  "parse_metrics PNone = Inr (PList [])
   \<and> parse_metrics (PBool False) = Inr (PList [])
   \<and> parse_metrics (PStr ''Accuracy'') = Inr (PList [PStr ''Accuracy''])
   \<and> parse_metrics (PList [PStr ''Accuracy'']) = Inr (PList [PStr ''Accuracy''])
   \<and> parse_metrics (PInt 7) = Inl (ValueError ''invalid metrics type'')"
  using parse_metrics_cases [where v = "PBool False" and s = "''Accuracy''"
          and xs = "[PStr ''Accuracy'']"]
        parse_metrics_cases [where v = "PInt 7" and s = "''Accuracy''"
          and xs = "[PStr ''Accuracy'']"]
  by simp

text \<open>
  Claim C5 as the spec states it fails at the empty string, which is a string input and
  gives the empty list, not \<open>[s]\<close>; and at the integer 0, which is neither unset, a
  string nor a list, and gives the empty list, not an error.
\<close>

theorem parse_metrics_false_inputs:
  "parse_metrics (PStr '''') = Inr (PList [])
   \<and> parse_metrics (PStr '''') \<noteq> Inr (PList [PStr ''''])
   \<and> parse_metrics (PInt 0) = Inr (PList [])"
  by (simp add: parse_metrics_def)

section \<open>Validation\<close>

text \<open>
  Claim C6. A batch size that is not equal to \<open>-1\<close> and is not an integer of at least
  \<open>MIN_BATCH_SIZE\<close> makes \<^verbatim>\<open>check()\<close> fail with an input error: an integer below the
  minimum, and also a float, a bool or any other non-integer, whatever its size. A batch
  size equal to \<open>-1\<close>, or an integer of at least \<open>MIN_BATCH_SIZE\<close>, makes
  \<^verbatim>\<open>check()\<close> succeed when the other steps pass: the three normalizers, the two
  optimizer arguments, the check of the initialization object and the iteration cap.
\<close>

theorem check_batch_size_claim:
  "(\<not> py_eq_int (batch_size p) (- 1) \<and> (\<forall>n. batch_size p = PInt n \<longrightarrow> n < m) \<longrightarrow>
      (\<exists>msg. fst (check m ic p) = Inl (ValueError msg)))
   \<and> ((py_eq_int (batch_size p) (- 1) \<or> (\<exists>n. batch_size p = PInt n \<and> m \<le> n))
       \<and> parse_early_stop (early_stop p) = Inr es
       \<and> parse_optimizer (optimizer p) = Inr opt
       \<and> parse_metrics (metrics p) = Inr ms
       \<and> getattr opt ''kwargs'' = Inr (PDict kw)
       \<and> check_kwarg ''decay'' kw = None
       \<and> check_kwarg ''learning_rate'' kw = None
       \<and> fst (ic (init_param p)) = Inr r
       \<and> check_max_iter (max_iter p) = None \<longrightarrow>
      fst (check m ic p) = Inr (PBool True))"
proof (intro conjI impI)
  assume bad: "\<not> py_eq_int (batch_size p) (- 1) \<and> (\<forall>n. batch_size p = PInt n \<longrightarrow> n < m)"
  then have b: "check_batch_size m (batch_size p) = Some (ValueError ''batch_size not supported'')"
    by (cases "batch_size p") (auto simp: check_batch_size_def)
  show "\<exists>msg. fst (check m ic p) = Inl (ValueError msg)"
  proof (rule check_fails_with_values)
    fix es' opt' ms'
    show "\<exists>msg. fst (check_values m ic (p\<lparr>early_stop := es', optimizer := opt', metrics := ms'\<rparr>))
                 = Inl (ValueError msg)"
      using b by (simp add: check_values_def)
  qed
next
  assume ok: "(py_eq_int (batch_size p) (- 1) \<or> (\<exists>n. batch_size p = PInt n \<and> m \<le> n))
       \<and> parse_early_stop (early_stop p) = Inr es
       \<and> parse_optimizer (optimizer p) = Inr opt
       \<and> parse_metrics (metrics p) = Inr ms
       \<and> getattr opt ''kwargs'' = Inr (PDict kw)
       \<and> check_kwarg ''decay'' kw = None
       \<and> check_kwarg ''learning_rate'' kw = None
       \<and> fst (ic (init_param p)) = Inr r
       \<and> check_max_iter (max_iter p) = None"
  then have b: "check_batch_size m (batch_size p) = None"
    by (auto simp: check_batch_size_def)
  show "fst (check m ic p) = Inr (PBool True)"
    using check_succeeds [of p es opt ms m kw ic r] ok b by simp
qed

text \<open>
  The theorem with the minimum 10: the batch size 5 fails, the batch sizes \<open>-1\<close> and 10
  succeed.
\<close>

theorem check_batch_size_claim_witness:
  "(\<exists>msg. fst (check MIN_BATCH_SIZE_10 init_check_accept (default_param\<lparr>batch_size := PInt 5\<rparr>))
       = Inl (ValueError msg))
   \<and> fst (check MIN_BATCH_SIZE_10 init_check_accept (default_param\<lparr>batch_size := PInt (- 1)\<rparr>))
       = Inr (PBool True)
   \<and> fst (check MIN_BATCH_SIZE_10 init_check_accept (default_param\<lparr>batch_size := PInt 10\<rparr>))
       = Inr (PBool True)"
proof -
  have k: "check_kwarg ''decay'' [] = None" "check_kwarg ''learning_rate'' [] = None"
    by (simp_all add: check_kwarg_def)
  have mi: "check_max_iter (PInt 100) = None"
    by (simp add: check_max_iter_def)
  show ?thesis
    using check_batch_size_claim [where p = "default_param\<lparr>batch_size := PInt 5\<rparr>"
            and m = MIN_BATCH_SIZE_10 and ic = init_check_accept]
          check_batch_size_claim [where p = "default_param\<lparr>batch_size := PInt (- 1)\<rparr>"
            and m = MIN_BATCH_SIZE_10 and ic = init_check_accept
            and es = "PNamespace [(''converge_func'', PStr ''diff''), (''eps'', PFloat default_eps)]"
            and opt = "PNamespace [(''optimizer'', PStr ''SGD''), (''kwargs'', PDict [])]"
            and ms = "PList []" and kw = "[]" and r = "PBool True"]
          check_batch_size_claim [where p = "default_param\<lparr>batch_size := PInt 10\<rparr>"
            and m = MIN_BATCH_SIZE_10 and ic = init_check_accept
            and es = "PNamespace [(''converge_func'', PStr ''diff''), (''eps'', PFloat default_eps)]"
            and opt = "PNamespace [(''optimizer'', PStr ''SGD''), (''kwargs'', PDict [])]"
            and ms = "PList []" and kw = "[]" and r = "PBool True"]
          k mi
    by (simp add: default_param_fields parse_defaults init_check_accept_def
          MIN_BATCH_SIZE_10_def)
qed

text \<open>
  Claim C7. When the normalized optimizer arguments hold an entry \<^verbatim>\<open>decay\<close> or
  \<^verbatim>\<open>learning_rate\<close> that is not a number (not an instance of \<^verbatim>\<open>int\<close> or
  \<^verbatim>\<open>float\<close>) or is a number below zero, \<^verbatim>\<open>check()\<close> fails with an input error. When
  each of the two entries that is present is a number and is not below zero, and the
  other steps pass, \<^verbatim>\<open>check()\<close> succeeds. Python counts a bool as an \<^verbatim>\<open>int\<close>.
\<close>

theorem check_optimizer_kwargs_claim:
  "(parse_optimizer (optimizer p) = Inr opt
      \<and> getattr opt ''kwargs'' = Inr (PDict kw)
      \<and> (key = ''decay'' \<or> key = ''learning_rate'')
      \<and> map_of kw key = Some v
      \<and> (\<not> isinstance_int_float v \<or> py_lt_int v 0 = Some True) \<longrightarrow>
      (\<exists>msg. fst (check m ic p) = Inl (ValueError msg)))
   \<and> (parse_early_stop (early_stop p) = Inr es
       \<and> parse_optimizer (optimizer p) = Inr opt
       \<and> parse_metrics (metrics p) = Inr ms
       \<and> check_batch_size m (batch_size p) = None
       \<and> getattr opt ''kwargs'' = Inr (PDict kw)
       \<and> (\<forall>x. map_of kw ''decay'' = Some x \<longrightarrow>
              isinstance_int_float x \<and> py_lt_int x 0 = Some False)
       \<and> (\<forall>x. map_of kw ''learning_rate'' = Some x \<longrightarrow>
              isinstance_int_float x \<and> py_lt_int x 0 = Some False)
       \<and> fst (ic (init_param p)) = Inr r
       \<and> check_max_iter (max_iter p) = None \<longrightarrow>
      fst (check m ic p) = Inr (PBool True))"
proof (intro conjI impI)
  assume h: "parse_optimizer (optimizer p) = Inr opt
      \<and> getattr opt ''kwargs'' = Inr (PDict kw)
      \<and> (key = ''decay'' \<or> key = ''learning_rate'')
      \<and> map_of kw key = Some v
      \<and> (\<not> isinstance_int_float v \<or> py_lt_int v 0 = Some True)"
  then have bad: "check_kwarg key kw = Some (ValueError (key @ '' not supported''))"
    by (intro check_kwarg_bad [where v = v]) simp_all
  show "\<exists>msg. fst (check m ic p) = Inl (ValueError msg)"
  proof (rule check_fails_with_values)
    fix es' opt' ms'
    assume "parse_optimizer (optimizer p) = Inr opt'"
    then have "opt' = opt" using h by simp
    then show "\<exists>msg. fst (check_values m ic (p\<lparr>early_stop := es', optimizer := opt', metrics := ms'\<rparr>))
                 = Inl (ValueError msg)"
      using h bad by (intro check_values_kwarg_fails [where kw = kw and key = key]) simp_all
  qed
next
  assume h: "parse_early_stop (early_stop p) = Inr es
       \<and> parse_optimizer (optimizer p) = Inr opt
       \<and> parse_metrics (metrics p) = Inr ms
       \<and> check_batch_size m (batch_size p) = None
       \<and> getattr opt ''kwargs'' = Inr (PDict kw)
       \<and> (\<forall>x. map_of kw ''decay'' = Some x \<longrightarrow>
              isinstance_int_float x \<and> py_lt_int x 0 = Some False)
       \<and> (\<forall>x. map_of kw ''learning_rate'' = Some x \<longrightarrow>
              isinstance_int_float x \<and> py_lt_int x 0 = Some False)
       \<and> fst (ic (init_param p)) = Inr r
       \<and> check_max_iter (max_iter p) = None"
  have d: "check_kwarg ''decay'' kw = None"
    using h by (intro check_kwarg_good) blast
  have l: "check_kwarg ''learning_rate'' kw = None"
    using h by (intro check_kwarg_good) blast
  show "fst (check m ic p) = Inr (PBool True)"
    using check_succeeds [of p es opt ms m kw ic r] h d l by simp
qed

text \<open>
  The theorem at \<^verbatim>\<open>{"optimizer": "SGD", "decay": -1}\<close>, which fails, and at
  \<^verbatim>\<open>{"optimizer": "SGD", "learning_rate": 0.05}\<close>, which succeeds.
\<close>

theorem check_optimizer_kwargs_claim_witness:
  "(\<exists>msg. fst (check MIN_BATCH_SIZE_10 init_check_accept
             (default_param\<lparr>optimizer :=
                PDict [(''optimizer'', PStr ''SGD''), (''decay'', PInt (- 1))]\<rparr>))
       = Inl (ValueError msg))
   \<and> fst (check MIN_BATCH_SIZE_10 init_check_accept
            (default_param\<lparr>optimizer :=
               PDict [(''optimizer'', PStr ''SGD''),
                      (''learning_rate'', PFloat (Fin (5 / 100)))]\<rparr>))
       = Inr (PBool True)"
proof -
  have o1: "parse_optimizer (PDict [(''optimizer'', PStr ''SGD''), (''decay'', PInt (- 1))])
              = Inr (PNamespace [(''optimizer'', PStr ''SGD''),
                      (''kwargs'', PDict [(''decay'', PInt (- 1))])])"
    by (simp add: parse_optimizer_def dict_get_def)
  have o2: "parse_optimizer
              (PDict [(''optimizer'', PStr ''SGD''), (''learning_rate'', PFloat (Fin (5 / 100)))])
              = Inr (PNamespace [(''optimizer'', PStr ''SGD''),
                      (''kwargs'', PDict [(''learning_rate'', PFloat (Fin (5 / 100)))])])"
    by (simp add: parse_optimizer_def dict_get_def)
  have b: "check_batch_size MIN_BATCH_SIZE_10 (PInt (- 1)) = None"
    by (simp add: check_batch_size_def)
  have mi: "check_max_iter (PInt 100) = None"
    by (simp add: check_max_iter_def)
  show ?thesis
    using check_optimizer_kwargs_claim [where p = "default_param\<lparr>optimizer :=
                PDict [(''optimizer'', PStr ''SGD''), (''decay'', PInt (- 1))]\<rparr>"
            and m = MIN_BATCH_SIZE_10 and ic = init_check_accept
            and opt = "PNamespace [(''optimizer'', PStr ''SGD''),
                      (''kwargs'', PDict [(''decay'', PInt (- 1))])]"
            and kw = "[(''decay'', PInt (- 1))]" and key = "''decay''" and v = "PInt (- 1)"]
          check_optimizer_kwargs_claim [where p = "default_param\<lparr>optimizer :=
               PDict [(''optimizer'', PStr ''SGD''),
                      (''learning_rate'', PFloat (Fin (5 / 100)))]\<rparr>"
            and m = MIN_BATCH_SIZE_10 and ic = init_check_accept
            and es = "PNamespace [(''converge_func'', PStr ''diff''), (''eps'', PFloat default_eps)]"
            and opt = "PNamespace [(''optimizer'', PStr ''SGD''),
                      (''kwargs'', PDict [(''learning_rate'', PFloat (Fin (5 / 100)))])]"
            and ms = "PList []" and kw = "[(''learning_rate'', PFloat (Fin (5 / 100)))]"
            and r = "PBool True"]
          o1 o2 b mi
    by (simp add: default_param_fields parse_defaults init_check_accept_def)
qed

text \<open>
  Claim C8. A \<^verbatim>\<open>max_iter\<close> that is not an integer of at least 1 (not of type
  \<^verbatim>\<open>int\<close>, or at most 0) makes \<^verbatim>\<open>check()\<close> fail, and the failure is an input error
  when the check of the initialization object, which runs before, raises input errors
  only. An integer \<^verbatim>\<open>max_iter\<close> of at least 1 makes \<^verbatim>\<open>check()\<close> succeed when the
  other steps pass.
\<close>

theorem check_max_iter_claim:
  "((\<forall>n. max_iter p = PInt n \<longrightarrow> n \<le> 0) \<longrightarrow> (\<exists>e. fst (check m ic p) = Inl e))
   \<and> ((\<forall>n. max_iter p = PInt n \<longrightarrow> n \<le> 0)
      \<and> (\<forall>e. fst (ic (init_param p)) = Inl e \<longrightarrow> (\<exists>msg. e = ValueError msg)) \<longrightarrow>
      (\<exists>msg. fst (check m ic p) = Inl (ValueError msg)))
   \<and> ((\<exists>n. max_iter p = PInt n \<and> 1 \<le> n)
       \<and> parse_early_stop (early_stop p) = Inr es
       \<and> parse_optimizer (optimizer p) = Inr opt
       \<and> parse_metrics (metrics p) = Inr ms
       \<and> check_batch_size m (batch_size p) = None
       \<and> getattr opt ''kwargs'' = Inr (PDict kw)
       \<and> check_kwarg ''decay'' kw = None
       \<and> check_kwarg ''learning_rate'' kw = None
       \<and> fst (ic (init_param p)) = Inr r \<longrightarrow>
      fst (check m ic p) = Inr (PBool True))"
proof (intro conjI impI)
  assume h: "\<forall>n. max_iter p = PInt n \<longrightarrow> n \<le> 0"
  then have bad: "check_max_iter (max_iter p) \<noteq> None"
    by (cases "max_iter p") (auto simp: check_max_iter_def)
  show "\<exists>e. fst (check m ic p) = Inl e"
  proof (cases "fst (check m ic p)")
    case (Inl e)
    then show ?thesis by blast
  next
    case (Inr r')
    then show ?thesis using check_success_max_iter [OF Inr] bad by simp
  qed
next
  assume h: "(\<forall>n. max_iter p = PInt n \<longrightarrow> n \<le> 0)
      \<and> (\<forall>e. fst (ic (init_param p)) = Inl e \<longrightarrow> (\<exists>msg. e = ValueError msg))"
  then obtain e where bad: "check_max_iter (max_iter p) = Some e"
    by (cases "max_iter p") (auto simp: check_max_iter_def)
  show "\<exists>msg. fst (check m ic p) = Inl (ValueError msg)"
  proof (rule check_fails_with_values)
    fix es' opt' ms'
    assume "parse_optimizer (optimizer p) = Inr opt'"
    then obtain nm kw' where "opt' = PNamespace [(''optimizer'', nm), (''kwargs'', PDict kw')]"
      using parse_optimizer_shape by blast
    then have g: "getattr opt' ''kwargs'' = Inr (PDict kw')" by simp
    show "\<exists>msg. fst (check_values m ic (p\<lparr>early_stop := es', optimizer := opt', metrics := ms'\<rparr>))
                 = Inl (ValueError msg)"
      using g bad h by (intro check_values_max_iter_fails [where kw = kw' and e = e]) simp_all
  qed
next
  assume h: "(\<exists>n. max_iter p = PInt n \<and> 1 \<le> n)
       \<and> parse_early_stop (early_stop p) = Inr es
       \<and> parse_optimizer (optimizer p) = Inr opt
       \<and> parse_metrics (metrics p) = Inr ms
       \<and> check_batch_size m (batch_size p) = None
       \<and> getattr opt ''kwargs'' = Inr (PDict kw)
       \<and> check_kwarg ''decay'' kw = None
       \<and> check_kwarg ''learning_rate'' kw = None
       \<and> fst (ic (init_param p)) = Inr r"
  then have mi: "check_max_iter (max_iter p) = None"
    by (auto simp: check_max_iter_def)
  show "fst (check m ic p) = Inr (PBool True)"
    using check_succeeds [of p es opt ms m kw ic r] h mi by simp
qed

text \<open>The spec's example: \<^verbatim>\<open>max_iter=0\<close> fails and \<^verbatim>\<open>max_iter=1\<close> succeeds.\<close>

theorem check_max_iter_claim_witness:
  "(\<exists>msg. fst (check MIN_BATCH_SIZE_10 init_check_accept (default_param\<lparr>max_iter := PInt 0\<rparr>))
       = Inl (ValueError msg))
   \<and> fst (check MIN_BATCH_SIZE_10 init_check_accept (default_param\<lparr>max_iter := PInt 1\<rparr>))
       = Inr (PBool True)"
proof -
  have k: "check_kwarg ''decay'' [] = None" "check_kwarg ''learning_rate'' [] = None"
    by (simp_all add: check_kwarg_def)
  have b: "check_batch_size MIN_BATCH_SIZE_10 (PInt (- 1)) = None"
    by (simp add: check_batch_size_def)
  show ?thesis
    using check_max_iter_claim [where p = "default_param\<lparr>max_iter := PInt 0\<rparr>"
            and ic = init_check_accept and m = MIN_BATCH_SIZE_10]
          check_max_iter_claim [where p = "default_param\<lparr>max_iter := PInt 1\<rparr>"
            and ic = init_check_accept and m = MIN_BATCH_SIZE_10
            and es = "PNamespace [(''converge_func'', PStr ''diff''), (''eps'', PFloat default_eps)]"
            and opt = "PNamespace [(''optimizer'', PStr ''SGD''), (''kwargs'', PDict [])]"
            and ms = "PList []" and kw = "[]" and r = "PBool True"]
          k b
    by (simp add: default_param_fields parse_defaults init_check_accept_def)
qed

text \<open>
  Claim C9. When the three normalizers succeed and \<^verbatim>\<open>check()\<close> raises at a later
  step, the object it leaves behind holds the normalized early-stop, optimizer and
  metrics values: a namespace of method and epsilon, a namespace of name and arguments,
  and a list. Nothing is rolled back.
\<close>

theorem check_failure_keeps_normalized:
  "parse_early_stop (early_stop p) = Inr es
     \<and> parse_optimizer (optimizer p) = Inr opt
     \<and> parse_metrics (metrics p) = Inr ms
     \<and> fst (check m ic p) = Inl e \<longrightarrow>
   early_stop (snd (check m ic p)) = es
     \<and> optimizer (snd (check m ic p)) = opt
     \<and> metrics (snd (check m ic p)) = ms
     \<and> (\<exists>cf eps. es = PNamespace [(''converge_func'', cf), (''eps'', eps)])
     \<and> (\<exists>nm kw. opt = PNamespace [(''optimizer'', nm), (''kwargs'', PDict kw)])
     \<and> (\<exists>xs. ms = PList xs)"
proof
  assume h: "parse_early_stop (early_stop p) = Inr es
     \<and> parse_optimizer (optimizer p) = Inr opt
     \<and> parse_metrics (metrics p) = Inr ms
     \<and> fst (check m ic p) = Inl e"
  let ?q = "p\<lparr>early_stop := es, optimizer := opt, metrics := ms\<rparr>"
  have c: "check m ic p = check_values m ic ?q"
    using h by (simp add: check_normalized)
  have "early_stop (snd (check m ic p)) = es \<and> optimizer (snd (check m ic p)) = opt
          \<and> metrics (snd (check m ic p)) = ms"
    using check_values_fields [of m ic ?q] c by simp
  moreover have "\<exists>cf eps. es = PNamespace [(''converge_func'', cf), (''eps'', eps)]"
    using h parse_early_stop_shape by blast
  moreover have "\<exists>nm kw. opt = PNamespace [(''optimizer'', nm), (''kwargs'', PDict kw)]"
    using h parse_optimizer_shape by blast
  moreover have "\<exists>xs. ms = PList xs"
    using h parse_metrics_shape by blast
  ultimately show "early_stop (snd (check m ic p)) = es
     \<and> optimizer (snd (check m ic p)) = opt
     \<and> metrics (snd (check m ic p)) = ms
     \<and> (\<exists>cf eps. es = PNamespace [(''converge_func'', cf), (''eps'', eps)])
     \<and> (\<exists>nm kw. opt = PNamespace [(''optimizer'', nm), (''kwargs'', PDict kw)])
     \<and> (\<exists>xs. ms = PList xs)"
    by blast
qed

text \<open>
  The theorem at the default object with the batch size 5: \<^verbatim>\<open>check()\<close> raises at the
  batch-size step, and the three fields are the namespaces and the list.
\<close>

theorem check_failure_keeps_normalized_witness:
  "fst (check MIN_BATCH_SIZE_10 init_check_accept (default_param\<lparr>batch_size := PInt 5\<rparr>))
     = Inl (ValueError ''batch_size not supported'')
   \<and> early_stop (snd (check MIN_BATCH_SIZE_10 init_check_accept
                        (default_param\<lparr>batch_size := PInt 5\<rparr>)))
     = PNamespace [(''converge_func'', PStr ''diff''), (''eps'', PFloat default_eps)]
   \<and> optimizer (snd (check MIN_BATCH_SIZE_10 init_check_accept
                        (default_param\<lparr>batch_size := PInt 5\<rparr>)))
     = PNamespace [(''optimizer'', PStr ''SGD''), (''kwargs'', PDict [])]
   \<and> metrics (snd (check MIN_BATCH_SIZE_10 init_check_accept
                      (default_param\<lparr>batch_size := PInt 5\<rparr>)))
     = PList []"
  using check_failure_keeps_normalized [where p = "default_param\<lparr>batch_size := PInt 5\<rparr>"
      and m = MIN_BATCH_SIZE_10 and ic = init_check_accept
      and es = "PNamespace [(''converge_func'', PStr ''diff''), (''eps'', PFloat default_eps)]"
      and opt = "PNamespace [(''optimizer'', PStr ''SGD''), (''kwargs'', PDict [])]"
      and ms = "PList []" and e = "ValueError ''batch_size not supported''"]
    check_bad_batch
  by (simp add: default_param_fields parse_defaults)

text \<open>
  Claim C2 does not hold of the code. On \<^verbatim>\<open>MatrixFactorizationParam()\<close> with every
  default the first \<^verbatim>\<open>check()\<close> succeeds, and the second one raises at line 108: the
  early-stop field now holds the namespace of the first call, which
  \<^verbatim>\<open>_parse_early_stop\<close> rejects as neither a string nor a mapping. By
  \<open>check_twice_fails\<close> this is so after every successful call.
\<close>

theorem check_twice_default:
  "fst (check MIN_BATCH_SIZE_10 init_check_accept default_param) = Inr (PBool True)
   \<and> fst (check MIN_BATCH_SIZE_10 init_check_accept
            (snd (check MIN_BATCH_SIZE_10 init_check_accept default_param)))
       = Inl (ValueError ''invalid type for early_stop'')"
  by (simp add: check_def check_values_def default_param_fields parse_defaults
        check_batch_size_def check_kwarg_def check_max_iter_def init_check_accept_def
        parse_early_stop_def)

section \<open>The constructor of the specialized class\<close>

text \<open>
  Claim C10. The object \<^verbatim>\<open>HeteroMatrixParam(...)\<close> builds does not depend on the
  arguments \<^verbatim>\<open>penalty\<close>, \<^verbatim>\<open>tol\<close>, \<^verbatim>\<open>alpha\<close>, \<^verbatim>\<open>learning_rate\<close>, \<^verbatim>\<open>decay\<close>
  and \<^verbatim>\<open>decay_sqrt\<close>: two calls that agree on the other nine arguments build equal
  objects.
\<close>

theorem hetero_init_ignores_arguments:
  "HeteroMatrixParam_init penalty tol alpha opt bs learning_rate ip mi es pp cv
       decay decay_sqrt ai vf
   = HeteroMatrixParam_init penalty' tol' alpha' opt bs learning_rate' ip mi es pp cv
       decay' decay_sqrt' ai vf"
  by (simp add: HeteroMatrixParam_init_def)

section \<open>The round trip through the persisted record\<close>

text \<open>
  Claim C1, as the code has it. Take an object in canonical form whose values have the
  types of the record's fields: a bool flag, integers the integer fields hold, an
  early-stop namespace of a string and a float, a list of strings, an optimizer
  namespace of a string and a dict without the key \<^verbatim>\<open>optimizer\<close>, a string loss. If
  the early-stop method and the optimizer name are not empty, and the optimizer
  arguments survive \<^verbatim>\<open>json.dumps\<close> and \<^verbatim>\<open>json.loads\<close>, then \<^verbatim>\<open>generate_pb()\<close>
  succeeds and \<^verbatim>\<open>restore_from_pb()\<close> of its record, on any object, succeeds and gives
  an object with the same six scalars and the same early-stop, optimizer and metrics
  values. The initialization method is the default afterwards: it is not in the record.
\<close>

theorem generate_restore_roundtrip:
  assumes "secure_aggregate p = PBool sa"
    and "aggregate_every_n_epoch p = PInt ag" and "int_field ag"
    and "batch_size p = PInt bs" and "int_field bs"
    and "max_iter p = PInt mi" and "int_field mi"
    and "early_stop p = PNamespace [(''converge_func'', PStr cf), (''eps'', PFloat eps)]"
    and "cf \<noteq> []"
    and "metrics p = PList (map PStr ms)"
    and "optimizer p = PNamespace [(''optimizer'', PStr nm), (''kwargs'', PDict kw)]"
    and "nm \<noteq> []"
    and "map_of kw ''optimizer'' = None"
    and "json_dumps (PDict kw) = Inr args"
    and "json_loads args = Inr (PDict kw)"
    and "loss p = PStr ls"
    and "embed_dim (init_param p) = PInt ed" and "int_field ed"
  shows "\<exists>pb. generate_pb int_field json_dumps p = Inr pb
           \<and> fst (restore_from_pb json_loads q pb) = Inr PNone
           \<and> secure_aggregate (snd (restore_from_pb json_loads q pb)) = secure_aggregate p
           \<and> aggregate_every_n_epoch (snd (restore_from_pb json_loads q pb))
               = aggregate_every_n_epoch p
           \<and> batch_size (snd (restore_from_pb json_loads q pb)) = batch_size p
           \<and> max_iter (snd (restore_from_pb json_loads q pb)) = max_iter p
           \<and> loss (snd (restore_from_pb json_loads q pb)) = loss p
           \<and> embed_dim (init_param (snd (restore_from_pb json_loads q pb)))
               = embed_dim (init_param p)
           \<and> init_method (init_param (snd (restore_from_pb json_loads q pb)))
               = default_init_method
           \<and> early_stop (snd (restore_from_pb json_loads q pb)) = early_stop p
           \<and> optimizer (snd (restore_from_pb json_loads q pb)) = optimizer p
           \<and> metrics (snd (restore_from_pb json_loads q pb)) = metrics p"
proof -
  let ?pb = "\<lparr>pb_secure_aggregate = sa,
                pb_aggregate_every_n_epoch = ag,
                pb_batch_size = bs,
                pb_max_iter = mi,
                pb_early_stop = \<lparr>pb_es_early_stop = cf, pb_es_eps = eps\<rparr>,
                pb_metrics = ms,
                pb_optimizer = \<lparr>pb_opt_optimizer = nm, pb_opt_args = args\<rparr>,
                pb_loss = ls,
                pb_embed_dim = ed\<rparr>"
  have g: "generate_pb int_field json_dumps p = Inr ?pb"
    using assms by (intro generate_pb_canonical)
  have r: "restore_from_pb json_loads q ?pb = (Inr PNone,
            q\<lparr>secure_aggregate := PBool sa,
              aggregate_every_n_epoch := PInt ag,
              batch_size := PInt bs,
              max_iter := PInt mi,
              early_stop := PNamespace [(''converge_func'', PStr cf), (''eps'', PFloat eps)],
              metrics := PList (map PStr ms),
              optimizer := PNamespace [(''optimizer'', PStr nm), (''kwargs'', PDict kw)],
              loss := PStr ls,
              init_param := MtxFInitParam_init (PInt ed) default_init_method\<rparr>)"
    using assms by (intro restore_from_pb_canonical)
  show ?thesis
    using g r assms by (simp add: MtxFInitParam_init_def)
qed

text \<open>
  The theorem at \<^verbatim>\<open>HeteroMatrixParam()\<close> with every default, after its
  \<^verbatim>\<open>check()\<close> (\<open>hetero_check_default\<close>), restored into a fresh default object.
\<close>

theorem generate_restore_roundtrip_witness:
  "\<exists>pb. generate_pb int32_field json_dumps_empty
          (snd (hetero_check MIN_BATCH_SIZE_10 init_check_accept default_hetero_param)) = Inr pb
     \<and> fst (restore_from_pb json_loads_empty default_hetero_param pb) = Inr PNone
     \<and> early_stop (snd (restore_from_pb json_loads_empty default_hetero_param pb))
         = PNamespace [(''converge_func'', PStr ''diff''), (''eps'', PFloat default_eps)]
     \<and> optimizer (snd (restore_from_pb json_loads_empty default_hetero_param pb))
         = PNamespace [(''optimizer'', PStr ''sgd''), (''kwargs'', PDict [])]
     \<and> metrics (snd (restore_from_pb json_loads_empty default_hetero_param pb)) = PList []
     \<and> batch_size (snd (restore_from_pb json_loads_empty default_hetero_param pb)) = PInt (- 1)
     \<and> max_iter (snd (restore_from_pb json_loads_empty default_hetero_param pb)) = PInt 100
     \<and> embed_dim (init_param (snd (restore_from_pb json_loads_empty default_hetero_param pb)))
         = PInt 10"
proof -
  let ?p = "snd (hetero_check MIN_BATCH_SIZE_10 init_check_accept default_hetero_param)"
  have f: "secure_aggregate ?p = PBool True" "aggregate_every_n_epoch ?p = PInt 1"
    "batch_size ?p = PInt (- 1)" "max_iter ?p = PInt 100"
    "early_stop ?p = PNamespace [(''converge_func'', PStr ''diff''), (''eps'', PFloat default_eps)]"
    "metrics ?p = PList (map PStr [])"
    "optimizer ?p = PNamespace [(''optimizer'', PStr ''sgd''), (''kwargs'', PDict [])]"
    "loss ?p = PStr ''mse''" "embed_dim (init_param ?p) = PInt 10"
    unfolding hetero_check_default snd_conv
    by (simp_all add: default_hetero_param_def hetero_param_def
          HeteroMatrixParam_init_def MatrixFactorizationParam_init_def
          MatrixFactorizationParam.extend_def HeteroMatrixParam.fields_def
          MtxFInitParam_init_def default_embed_dim_def)
  have i: "int32_field 1" "int32_field (- 1)" "int32_field 100" "int32_field 10"
    by (simp_all add: int32_field_def)
  have j: "json_dumps_empty (PDict []) = Inr ''{}''" "json_loads_empty ''{}'' = Inr (PDict [])"
    by (simp_all add: json_dumps_empty_def json_loads_empty_def)
  have n: "''diff'' \<noteq> []" "''sgd'' \<noteq> []" "map_of ([] :: (string \<times> pyval) list) ''optimizer'' = None"
    by simp_all
  obtain pb where pb: "generate_pb int32_field json_dumps_empty ?p = Inr pb"
      "fst (restore_from_pb json_loads_empty default_hetero_param pb) = Inr PNone"
      "early_stop (snd (restore_from_pb json_loads_empty default_hetero_param pb))
         = early_stop ?p"
      "optimizer (snd (restore_from_pb json_loads_empty default_hetero_param pb))
         = optimizer ?p"
      "metrics (snd (restore_from_pb json_loads_empty default_hetero_param pb)) = metrics ?p"
      "batch_size (snd (restore_from_pb json_loads_empty default_hetero_param pb))
         = batch_size ?p"
      "max_iter (snd (restore_from_pb json_loads_empty default_hetero_param pb)) = max_iter ?p"
      "embed_dim (init_param (snd (restore_from_pb json_loads_empty default_hetero_param pb)))
         = embed_dim (init_param ?p)"
    using generate_restore_roundtrip [where p = ?p and q = default_hetero_param
        and int_field = int32_field and json_dumps = json_dumps_empty
        and json_loads = json_loads_empty,
        OF f(1) f(2) i(1) f(3) i(2) f(4) i(3) f(5) n(1) f(6) f(7) n(2) n(3) j(1) j(2) f(8) f(9) i(4)]
    by blast
  show ?thesis
    using pb unfolding f by (intro exI [of _ pb]) simp
qed

text \<open>
  Claim C1 as the spec states it fails. \<^verbatim>\<open>HeteroMatrixParam(early_stop="")\<close> passes
  \<^verbatim>\<open>check()\<close>, which leaves it in canonical form with the empty method, and
  \<^verbatim>\<open>generate_pb()\<close> writes its record; \<^verbatim>\<open>restore_from_pb()\<close> of that record raises,
  because line 284 sends the method through the mapping branch of the normalizer, which
  rejects the empty string.
\<close>

theorem roundtrip_empty_method_fails:
  "fst (hetero_check MIN_BATCH_SIZE_10 init_check_accept
          (hetero_param (PStr ''sgd'') (PInt (- 1)) (PInt 100) (PStr ''''))) = Inr (PBool True)
   \<and> (case generate_pb int32_field json_dumps_empty
              (snd (hetero_check MIN_BATCH_SIZE_10 init_check_accept
                 (hetero_param (PStr ''sgd'') (PInt (- 1)) (PInt 100) (PStr '''')))) of
         Inl e \<Rightarrow> False
       | Inr pb \<Rightarrow>
           fst (restore_from_pb json_loads_empty
                  (snd (hetero_check MIN_BATCH_SIZE_10 init_check_accept
                     (hetero_param (PStr ''sgd'') (PInt (- 1)) (PInt 100) (PStr '''')))) pb)
             = Inl (ValueError ''early_stop config invalid''))"
  by (simp add: hetero_check_def check_def check_values_def hetero_param_def
        HeteroMatrixParam_init_def MatrixFactorizationParam_init_def
        MatrixFactorizationParam.extend_def HeteroMatrixParam.fields_def
        parse_early_stop_def parse_optimizer_def parse_metrics_def
        check_batch_size_def check_kwarg_def check_max_iter_def init_check_accept_def
        generate_pb_def restore_from_pb_def dict_get_def
        MtxFInitParam_init_def default_embed_dim_def int32_field_def
        json_dumps_empty_def default_eps_def)

end
